theory Spec2Isabelle
  imports Main "HOL-Library.AList"
begin

section \<open>Configuration entries and the configuration store\<close>

text \<open>
  A \<open>ConfigEntry\<close> is one named configuration section. The Go struct holds the
  key/value pairs in a \<open>map[string]string\<close> that is only ever read and written by key,
  so it is a partial function here.
\<close>

record ConfigEntry =
  ConfigDir :: string
  Group :: string
  Name :: string
  keyValues :: "string \<rightharpoonup> string"

text \<open>\<open>strings.HasPrefix(s, prefix)\<close>.\<close>

definition HasPrefix :: "string \<Rightarrow> string \<Rightarrow> bool" where
  "HasPrefix s pre = (take (length pre) s = pre)"

definition IsProgram :: "ConfigEntry \<Rightarrow> bool" where
  "IsProgram c = HasPrefix (Name c) ''program:''"

definition GetProgramName :: "ConfigEntry \<Rightarrow> string" where
  "GetProgramName c =
     (if HasPrefix (Name c) ''program:'' then drop (length ''program:'') (Name c) else '''')"

definition IsEventListener :: "ConfigEntry \<Rightarrow> bool" where
  "IsEventListener c = HasPrefix (Name c) ''eventlistener:''"

definition IsGroup :: "ConfigEntry \<Rightarrow> bool" where
  "IsGroup c = HasPrefix (Name c) ''group:''"

definition GetGroupName :: "ConfigEntry \<Rightarrow> string" where
  "GetGroupName c =
     (if HasPrefix (Name c) ''group:'' then drop (length ''group:'') (Name c) else '''')"

definition NewConfigEntry :: "string \<Rightarrow> ConfigEntry" where
  "NewConfigEntry configDir =
     \<lparr>ConfigDir = configDir, Group = '''', Name = '''', keyValues = Map.empty\<rparr>"

text \<open>
  The program-to-group mapping of \<open>ProcessGroup\<close> and the entry table of \<open>Config\<close> are
  Go maps that the code iterates over. Both are association lists here: the list order
  stands for the order in which one \<open>range\<close> loop visits the map (Go leaves it
  unspecified), \<open>map_of\<close> is the lookup and \<open>AList.update\<close> the assignment
  \<open>m[k] = v\<close>. The entry table holds pointers in Go; an entry is reachable from its own
  key only, so writing the updated entry back under that key is the mutation through the
  pointer.
\<close>

type_synonym ProcessGroup = "(string \<times> string) list"

record Config =
  configFile :: string
  entries :: "(string \<times> ConfigEntry) list"
  programGroup :: ProcessGroup

definition NewProcessGroup :: ProcessGroup where
  "NewProcessGroup = []"

definition NewConfig :: "string \<Rightarrow> Config" where
  "NewConfig file = \<lparr>configFile = file, entries = [], programGroup = NewProcessGroup\<rparr>"

text \<open>
  Code that the configuration loader calls and that is not among the sources is a
  parameter of the model, collected in one record:
  \<^item> \<open>Eval env s\<close> is \<open>NewStringExpression(k1, v1, ...).Eval(s)\<close> of the Expression
    Evaluator, with the bindings \<open>env\<close> in the order they are passed; \<open>None\<close> is a
    non-nil error;
  \<^item> \<open>KeyInt v\<close> is \<open>Key.Int()\<close> of the ini library on a key whose value is \<open>v\<close>;
  \<^item> \<open>Dir\<close> is \<open>filepath.Dir\<close>;
  \<^item> \<open>sortProgram\<close> is the function of that name, which orders program entries.
\<close>

record Library =
  Eval :: "(string \<times> string) list \<Rightarrow> string \<Rightarrow> string option"
  KeyInt :: "string \<Rightarrow> int option"
  Dir :: "string \<Rightarrow> string"
  sortProgram :: "ConfigEntry list \<Rightarrow> ConfigEntry list"

definition GetConfigFileDir :: "Library \<Rightarrow> Config \<Rightarrow> string" where
  "GetConfigFileDir lib c = Dir lib (configFile c)"

definition GetString :: "Library \<Rightarrow> ConfigEntry \<Rightarrow> string \<Rightarrow> string \<Rightarrow> string" where
  "GetString lib c key defValue =
     (case keyValues c key of
        Some s \<Rightarrow>
          (case Eval lib [(''here'', ConfigDir c)] s of
             Some rep_s \<Rightarrow> rep_s
           | None \<Rightarrow> defValue)
      | None \<Rightarrow> defValue)"

definition GetSupervisord :: "Config \<Rightarrow> ConfigEntry option" where
  "GetSupervisord c = map_of (entries c) ''supervisord''"

definition GetEntries :: "Config \<Rightarrow> (ConfigEntry \<Rightarrow> bool) \<Rightarrow> ConfigEntry list" where
  "GetEntries c filterFunc = filter filterFunc (map snd (entries c))"

definition Config_GetPrograms :: "Library \<Rightarrow> Config \<Rightarrow> ConfigEntry list" where
  "Config_GetPrograms lib c = sortProgram lib (GetEntries c IsProgram)"

definition GetProgramNames :: "Library \<Rightarrow> Config \<Rightarrow> string list" where
  "GetProgramNames lib c =
     (let programs = Config_GetPrograms lib c;
          programs = sortProgram lib programs
      in map GetProgramName programs)"

section \<open>The group index\<close>

text \<open>
  \<open>ProcessGroup.Add\<close> and \<open>ProcessGroup.GetGroup\<close>; the latter records the default
  group for a program it does not know yet, so it returns the index as well.
\<close>

definition Add :: "ProcessGroup \<Rightarrow> string \<Rightarrow> string \<Rightarrow> ProcessGroup" where
  "Add pg grp procName = AList.update procName grp pg"

definition ProcessGroup_GetGroup ::
  "ProcessGroup \<Rightarrow> string \<Rightarrow> string \<Rightarrow> string \<times> ProcessGroup" where
  "ProcessGroup_GetGroup pg procName defGroup =
     (case map_of pg procName of
        Some grp \<Rightarrow> (grp, pg)
      | None \<Rightarrow> (defGroup, AList.update procName defGroup pg))"

text \<open>
  \<open>GetAllGroup\<close> collects the groups in a set (a \<open>map[string]bool\<close>) and lists the
  set: every group once, in an order Go does not fix. \<open>GetAllProcess\<close> lists the
  programs mapped to a group.
\<close>

definition GetAllGroup :: "ProcessGroup \<Rightarrow> string list" where
  "GetAllGroup pg = remdups (map snd pg)"

definition GetAllProcess :: "ProcessGroup \<Rightarrow> string \<Rightarrow> string list" where
  "GetAllProcess pg grp = map fst (filter (\<lambda>(procName, groupName). grp = groupName) pg)"

text \<open>
  Modelled from the spec: \<open>util.Sub\<close> and \<open>util.IsSameStringArray\<close> (package \<open>util\<close>
  is not among the sources). The first gives the elements of its first list that are
  "present only in" it, in their order; the second compares two lists "as unordered
  sets".
\<close>

definition util_Sub :: "string list \<Rightarrow> string list \<Rightarrow> string list" where
  "util_Sub arr_1 arr_2 = filter (\<lambda>s. s \<notin> set arr_2) arr_1"

definition IsSameStringArray :: "string list \<Rightarrow> string list \<Rightarrow> bool" where
  "IsSameStringArray arr1 arr2 = (set arr1 = set arr2)"

text \<open>\<open>ProcessGroup.Sub\<close>, the diff of this index against another.\<close>

definition ProcessGroup_Sub ::
  "ProcessGroup \<Rightarrow> ProcessGroup \<Rightarrow> string list \<times> string list \<times> string list" where
  "ProcessGroup_Sub pg other =
     (let thisGroup = GetAllGroup pg;
          otherGroup = GetAllGroup other;
          added = util_Sub thisGroup otherGroup;
          removed = util_Sub otherGroup thisGroup;
          changed = fold (\<lambda>grp changed.
                            let proc1 = GetAllProcess pg grp;
                                proc2 = GetAllProcess other grp
                            in if length proc2 > 0 \<and> \<not> IsSameStringArray proc1 proc2
                               then changed @ [grp] else changed)
                         thisGroup []
      in (added, changed, removed))"

text \<open>
  The spec's \<open>unchanged(A, B)\<close> has no counterpart in the code. In the spec's words a
  group is changed when it is "present in both but with a different program membership
  set"; the unchanged groups are those present in both with the same membership set.
\<close>

definition spec_unchanged :: "ProcessGroup \<Rightarrow> ProcessGroup \<Rightarrow> string list" where
  "spec_unchanged new old =
     filter (\<lambda>grp. grp \<in> set (GetAllGroup old)
                   \<and> set (GetAllProcess new grp) = set (GetAllProcess old grp))
            (GetAllGroup new)"

section \<open>Loading the configuration\<close>

text \<open>
  The ini file is read by an ini library that is not part of the repository. A section
  is its name and its keys with their values, in file order; the library keeps every key
  of a section once. Of the library's interface the loader uses
  \<^item> \<open>Key(name)\<close>, which returns the section's key of that name and, when the section
    has none, first adds one with the empty value: \<open>Key section name\<close> is the value of
    the key it returns (what \<open>.Value()\<close> reads) and \<open>KeyAdded section name\<close> is the
    section after the call;
  \<^item> \<open>GetKey(name)\<close>, which returns the key, or \<open>nil\<close> and an error (\<open>None\<close>), and
    leaves the section as it is;
  \<^item> \<open>NewKey(name, value)\<close>, which sets the key, adding it when it is new;
  \<^item> \<open>Keys()\<close>, the keys in their order.
\<close>

record Section =
  sec_Name :: string
  sec_Keys :: "(string \<times> string) list"

definition Key :: "Section \<Rightarrow> string \<Rightarrow> string" where
  "Key section name = (case map_of (sec_Keys section) name of Some v \<Rightarrow> v | None \<Rightarrow> [])"

definition KeyAdded :: "Section \<Rightarrow> string \<Rightarrow> Section" where
  "KeyAdded section name =
     (case map_of (sec_Keys section) name of
        Some v \<Rightarrow> section
      | None \<Rightarrow> section\<lparr>sec_Keys := AList.update name [] (sec_Keys section)\<rparr>)"

definition GetKey :: "Section \<Rightarrow> string \<Rightarrow> string option" where
  "GetKey section name = map_of (sec_Keys section) name"

definition NewKey :: "Section \<Rightarrow> string \<Rightarrow> string \<Rightarrow> Section" where
  "NewKey section name val = section\<lparr>sec_Keys := AList.update name val (sec_Keys section)\<rparr>"

text \<open>
  \<open>createEntry\<close> returns the entry stored under the name, or stores and returns a new
  one. \<open>ConfigEntry.parse\<close> takes the section's name and copies its keys one by one.
\<close>

definition createEntry :: "Config \<Rightarrow> string \<Rightarrow> string \<Rightarrow> ConfigEntry \<times> Config" where
  "createEntry c name configDir =
     (case map_of (entries c) name of
        Some entry \<Rightarrow> (entry, c)
      | None \<Rightarrow>
          (let entry = NewConfigEntry configDir
           in (entry, c\<lparr>entries := AList.update name entry (entries c)\<rparr>)))"

definition ConfigEntry_parse :: "ConfigEntry \<Rightarrow> Section \<Rightarrow> ConfigEntry" where
  "ConfigEntry_parse c section =
     fold (\<lambda>(name, val) c. c\<lparr>keyValues := (keyValues c)(name \<mapsto> val)\<rparr>)
          (sec_Keys section)
          (c\<lparr>Name := sec_Name section\<rparr>)"

text \<open>\<open>fmt.Sprintf("%d", i)\<close>: the decimal digits, with a minus sign when negative.\<close>

fun digits :: "nat \<Rightarrow> string" where
  "digits n = (if n < 10 then [''0123456789'' ! n]
               else digits (n div 10) @ [''0123456789'' ! (n mod 10)])"

definition itoa :: "int \<Rightarrow> string" where
  "itoa i = (if i < 0 then CHR ''-'' # digits (nat (- i)) else digits (nat i))"

text \<open>\<open>strings.Index(s, substr)\<close>: the first position of \<open>substr\<close> in \<open>s\<close>, or -1.\<close>

fun IndexFrom :: "int \<Rightarrow> string \<Rightarrow> string \<Rightarrow> int" where
  "IndexFrom k [] substr = (if substr = [] then k else - 1)"
| "IndexFrom k (c # cs) substr =
     (if HasPrefix (c # cs) substr then k else IndexFrom (k + 1) cs substr)"

definition Index :: "string \<Rightarrow> string \<Rightarrow> int" where
  "Index s substr = IndexFrom 0 s substr"

definition isProgramOrEventListener :: "Section \<Rightarrow> bool \<times> string" where
  "isProgramOrEventListener section =
     (let is_program = HasPrefix (sec_Name section) ''program:'';
          is_event_listener = HasPrefix (sec_Name section) ''eventlistener:'';
          pre = (if is_program then ''program:''
                 else if is_event_listener then ''eventlistener:'' else [])
      in (is_program \<or> is_event_listener, pre))"

text \<open>
  One round of the instance loop of \<open>parseProgram\<close>, for instance number \<open>i\<close>. It
  works on the section (whose keys it overwrites) and on the store. Each \<open>continue\<close> of
  the source is a branch that returns what has been changed up to there.
\<close>

definition expandInstance ::
  "Library \<Rightarrow> string \<Rightarrow> string \<Rightarrow> string \<Rightarrow> int \<Rightarrow> Section \<times> Config \<Rightarrow> Section \<times> Config" where
  "expandInstance lib pre programName originalProcName i st =
     (case st of (section, c) \<Rightarrow>
      (case ProcessGroup_GetGroup (programGroup c) programName programName of
         (group_name, pg1) \<Rightarrow>
        (let c1 = c\<lparr>programGroup := pg1\<rparr>;
             envs = [(''program_name'', programName),
                     (''process_num'', itoa i),
                     (''group_name'', group_name),
                     (''here'', GetConfigFileDir lib c1)]
         in case Eval lib envs (Key section ''command'') of
              None \<Rightarrow> (KeyAdded section ''command'', c1)
            | Some cmd \<Rightarrow>
               (let section1 = NewKey (KeyAdded section ''command'') ''command'' cmd
                in case Eval lib envs originalProcName of
                     None \<Rightarrow> (section1, c1)
                   | Some procName \<Rightarrow>
                      (let section2 = NewKey section1 ''process_name'' procName;
                           section3 = NewKey section2 ''numprocs_start'' (itoa (i - 1));
                           section4 = NewKey section3 ''process_num'' (itoa i)
                       in case createEntry c1 procName (GetConfigFileDir lib c1) of
                            (entry, c2) \<Rightarrow>
                           (let entry1 = ConfigEntry_parse entry section4;
                                entry2 = entry1\<lparr>Name := pre @ procName\<rparr>
                            in case ProcessGroup_GetGroup (programGroup c2) programName programName of
                                 (grp, pg2) \<Rightarrow>
                                   (section4,
                                    c2\<lparr>programGroup := pg2,
                                       entries := AList.update procName (entry2\<lparr>Group := grp\<rparr>)
                                                    (entries c2)\<rparr>)))))))"

text \<open>
  The loop \<open>for i := 1; i <= numProcs; i++\<close>. The counter is a Go \<open>int\<close>; it cannot
  overflow before the loop has run more than \<open>2^63 - 2\<close> rounds, so it is an integer here.
\<close>

function instanceLoop ::
  "Library \<Rightarrow> string \<Rightarrow> string \<Rightarrow> string \<Rightarrow> int \<Rightarrow> int \<Rightarrow> Section \<times> Config \<Rightarrow> Section \<times> Config" where
  "instanceLoop lib pre programName originalProcName numProcs i st =
     (if i \<le> numProcs
      then instanceLoop lib pre programName originalProcName numProcs (i + 1)
             (expandInstance lib pre programName originalProcName i st)
      else st)"
  by pat_completeness auto
termination
  by (relation "measure (\<lambda>(lib, pre, programName, originalProcName, numProcs, i, st).
                           nat (numProcs + 1 - i))") auto

declare instanceLoop.simps [simp del]

text \<open>
  The body of the section loop of \<open>parseProgram\<close>. It returns the error messages it
  logs, the section and the store. When \<open>numprocs\<close> is above one and the section has no
  \<open>process_name\<close> key, the logging statement reads the value of the key that
  \<open>GetKey\<close> did not find, through a nil pointer: the loader panics. Reading
  \<open>numprocs\<close> with \<open>Key\<close> adds the key to a section that has none; reading
  \<open>process_name\<close> with \<open>Key\<close> happens only when \<open>GetKey\<close> has found the key, and
  leaves the section as it is.
\<close>

datatype panic = NilPointerDereference

definition parseProgramSection ::
  "Library \<Rightarrow> Section \<Rightarrow> Config \<Rightarrow> panic + (string list \<times> Section \<times> Config)" where
  "parseProgramSection lib section c =
     (case isProgramOrEventListener section of
        (program_or_event_listener, pre) \<Rightarrow>
          if program_or_event_listener
          then (let numProcs = (case KeyInt lib (Key section ''numprocs'') of
                                  Some n \<Rightarrow> n | None \<Rightarrow> 1);
                    section0 = KeyAdded section ''numprocs'';
                    programName = drop (length pre) (sec_Name section0);
                    procNameKey = GetKey section0 ''process_name''
                in case (if numProcs > 1
                         then (case procNameKey of
                                 None \<Rightarrow> Inl NilPointerDereference
                               | Some v \<Rightarrow>
                                   Inr (if Index v ''%(process_num)'' = - 1
                                        then [''no process_num in process name''] else []))
                         else Inr []) of
                     Inl p \<Rightarrow> Inl p
                   | Inr logged \<Rightarrow>
                       (let originalProcName =
                              (case procNameKey of
                                 None \<Rightarrow> programName
                               | Some v \<Rightarrow> Key section0 ''process_name'')
                        in case instanceLoop lib pre programName originalProcName numProcs 1
                                  (section0, c) of
                             (section', c') \<Rightarrow> Inr (logged, section', c')))
          else Inr ([], section, c))"

fun parseProgram ::
  "Library \<Rightarrow> Section list \<Rightarrow> Config \<Rightarrow> panic + (string list \<times> Section list \<times> Config)" where
  "parseProgram lib [] c = Inr ([], [], c)"
| "parseProgram lib (section # rest) c =
     (case parseProgramSection lib section c of
        Inl p \<Rightarrow> Inl p
      | Inr (logged, section', c') \<Rightarrow>
          (case parseProgram lib rest c' of
             Inl p \<Rightarrow> Inl p
           | Inr (logged', rest', c'') \<Rightarrow> Inr (logged @ logged', section' # rest', c'')))"





text \<open>
  \<open>strings.Split(s, sep)\<close>: the pieces of \<open>s\<close> between the occurrences of \<open>sep\<close>
  (one piece, \<open>s\<close> itself, when there is none); an empty \<open>sep\<close> splits after every
  character.
\<close>

function splitAt :: "string \<Rightarrow> string \<Rightarrow> string \<Rightarrow> string list" where
  "splitAt sep cur [] = [cur]"
| "splitAt sep cur (c # cs) =
     (if sep \<noteq> [] \<and> HasPrefix (c # cs) sep
      then cur # splitAt sep [] (drop (length sep) (c # cs))
      else splitAt sep (cur @ [c]) cs)"
  by pat_completeness auto
termination
  by (relation "measure (\<lambda>(sep, cur, s). length s)") auto

definition Split :: "string \<Rightarrow> string \<Rightarrow> string list" where
  "Split s sep = (if sep = [] then map (\<lambda>c. [c]) s else splitAt sep [] s)"

definition GetStringArray :: "ConfigEntry \<Rightarrow> string \<Rightarrow> string \<Rightarrow> string list" where
  "GetStringArray c key sep =
     (case keyValues c key of Some s \<Rightarrow> Split s sep | None \<Rightarrow> [])"

definition ConfigEntry_GetPrograms :: "ConfigEntry \<Rightarrow> string list" where
  "ConfigEntry_GetPrograms c = (if IsGroup c then GetStringArray c ''programs'' '','' else [])"

text \<open>
  \<open>parseGroup\<close> and \<open>Config.parse\<close>. The third loop of \<open>parse\<close> runs over the
  sections as \<open>parseProgram\<close> left them.
\<close>

definition parseGroupSection :: "Library \<Rightarrow> Section \<Rightarrow> Config \<Rightarrow> Config" where
  "parseGroupSection lib section c =
     (if HasPrefix (sec_Name section) ''group:''
      then (case createEntry c (sec_Name section) (GetConfigFileDir lib c) of
              (entry, c1) \<Rightarrow>
                (let entry1 = ConfigEntry_parse entry section;
                     c2 = c1\<lparr>entries := AList.update (sec_Name section) entry1 (entries c1)\<rparr>;
                     groupName = GetGroupName entry1;
                     programs = ConfigEntry_GetPrograms entry1
                 in c2\<lparr>programGroup :=
                         fold (\<lambda>program pg. Add pg groupName program) programs (programGroup c2)\<rparr>))
      else c)"

definition parseGroup :: "Library \<Rightarrow> Section list \<Rightarrow> Config \<Rightarrow> Config" where
  "parseGroup lib cfg c = fold (parseGroupSection lib) cfg c"

definition parseOtherSection :: "Library \<Rightarrow> Section \<Rightarrow> Config \<Rightarrow> Config" where
  "parseOtherSection lib section c =
     (if \<not> HasPrefix (sec_Name section) ''group:'' \<and> \<not> HasPrefix (sec_Name section) ''program:''
      then (case createEntry c (sec_Name section) (GetConfigFileDir lib c) of
              (entry, c1) \<Rightarrow>
                c1\<lparr>entries := AList.update (sec_Name section) (ConfigEntry_parse entry section)
                                (entries c1)\<rparr>)
      else c)"

definition Config_parse ::
  "Library \<Rightarrow> Section list \<Rightarrow> Config \<Rightarrow> panic + (string list \<times> Section list \<times> Config)" where
  "Config_parse lib cfg c =
     (case parseProgram lib cfg (parseGroup lib cfg c) of
        Inl p \<Rightarrow> Inl p
      | Inr (logged, cfg', c') \<Rightarrow> Inr (logged, cfg', fold (parseOtherSection lib) cfg' c'))"

subsection \<open>A concrete library for the examples\<close>

text \<open>
  Modelled from the spec: the Expression Evaluator (\<open>StringExpression.Eval\<close> is not
  among the sources). A placeholder is \<open>%(name)\<close> followed by one conversion character;
  it is replaced by the value bound to \<open>name\<close>, the evaluation fails when \<open>name\<close> has
  no binding (or the placeholder is cut short), and a substituted value is not scanned
  again.
\<close>

function specEval :: "(string \<times> string) list \<Rightarrow> string \<Rightarrow> string option" where
  "specEval env [] = Some []"
| "specEval env (c # cs) =
     (if c = CHR ''%'' \<and> HasPrefix cs ''(''
      then (case dropWhile (\<lambda>x. x \<noteq> CHR '')'') (tl cs) of
              close # typ # rest \<Rightarrow>
                (case map_of env (takeWhile (\<lambda>x. x \<noteq> CHR '')'') (tl cs)) of
                   None \<Rightarrow> None
                 | Some v \<Rightarrow> map_option (\<lambda>r. v @ r) (specEval env rest))
            | _ \<Rightarrow> None)
      else map_option (\<lambda>r. c # r) (specEval env cs))"
  by pat_completeness auto
termination
proof (relation "measure (\<lambda>(env, s). length s)")
  fix env :: "(string \<times> string) list" and c x21 x21a :: char and cs x22 x22a :: string
  assume "dropWhile (\<lambda>x. x \<noteq> CHR '')'') (tl cs) = x21 # x22" and "x22 = x21a # x22a"
  then have "length (dropWhile (\<lambda>x. x \<noteq> CHR '')'') (tl cs)) = Suc (Suc (length x22a))"
    by simp
  moreover have "length (dropWhile (\<lambda>x. x \<noteq> CHR '')'') (tl cs)) \<le> length (tl cs)"
    by (rule length_dropWhile_le)
  ultimately show "((env, x22a), (env, c # cs)) \<in> measure (\<lambda>(env, s). length s)"
    by simp
qed auto

text \<open>
  The examples read \<open>numprocs\<close> as an optional minus sign and decimal digits, take the
  directory of a path to be what stands before its last slash, and leave the order of
  the program entries as it is.
\<close>

fun decimalFrom :: "nat \<Rightarrow> string \<Rightarrow> nat option" where
  "decimalFrom acc [] = Some acc"
| "decimalFrom acc (c # cs) =
     (case map_of (zip ''0123456789'' [0, 1, 2, 3, 4, 5, 6, 7, 8, 9]) c of
        None \<Rightarrow> None
      | Some d \<Rightarrow> decimalFrom (10 * acc + d) cs)"

definition decimalInt :: "string \<Rightarrow> int option" where
  "decimalInt s =
     (case s of
        [] \<Rightarrow> None
      | c # cs \<Rightarrow>
          if c = CHR ''-''
          then (if cs = [] then None else map_option (\<lambda>n. - int n) (decimalFrom 0 cs))
          else map_option int (decimalFrom 0 s))"

definition dirOf :: "string \<Rightarrow> string" where
  "dirOf path =
     (let d = rev (drop 1 (dropWhile (\<lambda>x. x \<noteq> CHR ''/'') (rev path)))
      in if d \<noteq> [] then d else if CHR ''/'' \<in> set path then ''/'' else ''.'')"

definition exampleLibrary :: Library where
  "exampleLibrary =
     \<lparr>Eval = specEval, KeyInt = decimalInt, Dir = dirOf, sortProgram = (\<lambda>programs. programs)\<rparr>"

text \<open>
  A store as it stands after a first load: the daemon section and two programs, each
  program stored under its process name.
\<close>

definition exampleEntry :: "string \<Rightarrow> (string \<times> string) list \<Rightarrow> ConfigEntry" where
  "exampleEntry name kvs = \<lparr>ConfigDir = ''/etc'', Group = [], Name = name, keyValues = map_of kvs\<rparr>"

definition exampleConfig :: Config where
  "exampleConfig =
     \<lparr>configFile = ''/etc/supervisord.conf'',
      entries = [(''supervisord'', exampleEntry ''supervisord''
                    [(''logfile'', ''/var/log/supervisord.log''), (''loglevel'', ''debug'')]),
                 (''web'', exampleEntry ''program:web'' [(''command'', ''/bin/web'')]),
                 (''db'', exampleEntry ''program:db'' [(''command'', ''/bin/db'')])],
      programGroup = [(''web'', ''web''), (''db'', ''db'')]\<rparr>"









section \<open>The supervisor and its RPC operations\<close>

text \<open>
  Modelled from the spec: the \<open>Process\<close> type and the \<open>ProcessManager\<close> of the Process
  Runtime collaborator are not among the sources. A process is the record of what the
  getters called by \<open>getProcessInfo\<close> return (times as Unix seconds;
  \<open>GetStateCode\<close> is \<open>int(proc.GetState())\<close> and \<open>GetStateString\<close> is
  \<open>proc.GetState().String()\<close>); the manager is the list of its processes in the order
  \<open>ForEachProcess\<close> visits them. Of the supervisor's fields the model keeps the
  configuration, the process manager and the restart flag; the RPC server and the logger
  play no part in the operations below.
\<close>

record Process =
  GetName :: string
  GetGroup :: string
  GetDescription :: string
  GetStartTime :: int
  GetStopTime :: int
  GetStateCode :: int
  GetStateString :: string
  GetExitstatus :: int
  GetStdoutLogfile :: string
  GetStderrLogfile :: string
  GetPid :: int

type_synonym ProcessManager = "Process list"

record Supervisor =
  config :: Config
  procMgr :: ProcessManager
  restarting :: bool

record StateInfo =
  Statecode :: int
  Statename :: string

text \<open>
  Every RPC method gets a zero-valued reply from the RPC layer, fills it and returns an
  \<open>error\<close> (\<open>nil\<close> is \<open>None\<close>). The model returns the supervisor after the call, the
  reply and the error. \<open>fmt.Errorf\<close> values keep their message text. Log lines of
  the levels Debug and Info are left out.
\<close>

datatype error = Errorf string

definition GetState :: "Supervisor \<Rightarrow> Supervisor \<times> StateInfo \<times> error option" where
  "GetState s = (s, \<lparr>Statecode = 1, Statename = ''RUNNING''\<rparr>, None)"

definition Restart :: "Supervisor \<Rightarrow> Supervisor \<times> bool \<times> error option" where
  "Restart s = (s\<lparr>restarting := True\<rparr>, True, None)"

definition IsRestarting :: "Supervisor \<Rightarrow> bool" where
  "IsRestarting s = restarting s"

definition AddProcessGroup :: "Supervisor \<Rightarrow> string \<Rightarrow> Supervisor \<times> bool \<times> error option" where
  "AddProcessGroup s name = (s, False, None)"

definition RemoveProcessGroup :: "Supervisor \<Rightarrow> string \<Rightarrow> Supervisor \<times> bool \<times> error option" where
  "RemoveProcessGroup s name = (s, False, None)"

text \<open>
  What a process does when it is started or stopped, how the manager creates and removes
  a process, and the clock are the Process Runtime's business; they are parameters of the
  model. \<open>Start p wait\<close> and \<open>Stop p wait\<close> give the process after the call,
  \<open>CreateProcess id entry\<close> and \<open>Remove name\<close> transform the manager, and \<open>Now k\<close>
  is the reading of \<open>time.Now().Unix()\<close> for the \<open>k\<close>-th descriptor built during one
  RPC call.
\<close>

record Runtime =
  Start :: "Process \<Rightarrow> bool \<Rightarrow> Process"
  Stop :: "Process \<Rightarrow> bool \<Rightarrow> Process"
  CreateProcess :: "string \<Rightarrow> ConfigEntry \<Rightarrow> ProcessManager \<Rightarrow> ProcessManager"
  Remove :: "string \<Rightarrow> ProcessManager \<Rightarrow> ProcessManager"
  Now :: "nat \<Rightarrow> int"

text \<open>
  Modelled from the spec: \<open>ProcessManager.Find\<close> and \<open>ProcessManager.ForEachProcess\<close>
  (\<open>Find(name) -> ProcessHandle?\<close> and \<open>ForEach(fn)\<close> of the collaborator's
  interface). \<open>Find\<close> gives the process of that name, if any. \<open>ForEachProcess\<close> calls
  \<open>procFunc\<close> on every process in turn; the callback gets a pointer in Go, so here it
  returns the process as it left it, together with the state it accumulates (the reply
  its closure captures). \<open>setProcess\<close> writes a process back to where \<open>Find\<close> found
  it.
\<close>

definition Find :: "ProcessManager \<Rightarrow> string \<Rightarrow> Process option" where
  "Find pm name = find (\<lambda>proc. GetName proc = name) pm"

fun setProcess :: "ProcessManager \<Rightarrow> string \<Rightarrow> Process \<Rightarrow> ProcessManager" where
  "setProcess [] name proc' = []"
| "setProcess (proc # rest) name proc' =
     (if GetName proc = name then proc' # rest else proc # setProcess rest name proc')"

fun ForEachProcess ::
  "ProcessManager \<Rightarrow> (Process \<Rightarrow> 'a \<Rightarrow> Process \<times> 'a) \<Rightarrow> 'a \<Rightarrow> ProcessManager \<times> 'a" where
  "ForEachProcess [] procFunc a = ([], a)"
| "ForEachProcess (proc # rest) procFunc a =
     (case procFunc proc a of
        (proc', a') \<Rightarrow>
          (case ForEachProcess rest procFunc a' of
             (rest', a'') \<Rightarrow> (proc' # rest', a'')))"

text \<open>The fields of \<open>ProcessInfo\<close> carry the prefix \<open>info_\<close>.\<close>

record ProcessInfo =
  info_Name :: string
  info_Group :: string
  info_Description :: string
  info_Start :: int
  info_Stop :: int
  info_Now :: int
  info_State :: int
  info_Statename :: string
  info_Spawnerr :: string
  info_Exitstatus :: int
  info_Logfile :: string
  info_Stdout_logfile :: string
  info_Stderr_logfile :: string
  info_Pid :: int

record StartProcessArgs =
  arg_Name :: string
  arg_Wait :: bool

definition getProcessInfo :: "int \<Rightarrow> Process \<Rightarrow> ProcessInfo" where
  "getProcessInfo now proc =
     \<lparr>info_Name = GetName proc,
      info_Group = GetGroup proc,
      info_Description = GetDescription proc,
      info_Start = GetStartTime proc,
      info_Stop = GetStopTime proc,
      info_Now = now,
      info_State = GetStateCode proc,
      info_Statename = GetStateString proc,
      info_Spawnerr = [],
      info_Exitstatus = GetExitstatus proc,
      info_Logfile = GetStdoutLogfile proc,
      info_Stdout_logfile = GetStdoutLogfile proc,
      info_Stderr_logfile = GetStderrLogfile proc,
      info_Pid = GetPid proc\<rparr>"

definition GetSupervisorId :: "Library \<Rightarrow> Supervisor \<Rightarrow> string" where
  "GetSupervisorId lib s =
     (case GetSupervisord (config s) of
        Some entry \<Rightarrow> GetString lib entry ''identifier'' ''supervisor''
      | None \<Rightarrow> ''supervisor'')"

definition StartProcess ::
  "Runtime \<Rightarrow> Supervisor \<Rightarrow> StartProcessArgs \<Rightarrow> Supervisor \<times> bool \<times> error option" where
  "StartProcess rt s args =
     (case Find (procMgr s) (arg_Name args) of
        None \<Rightarrow> (s, False, Some (Errorf (''fail to find process '' @ arg_Name args)))
      | Some proc \<Rightarrow>
          (s\<lparr>procMgr := setProcess (procMgr s) (arg_Name args) (Start rt proc (arg_Wait args))\<rparr>,
           True, None))"

definition StartProcessGroup ::
  "Runtime \<Rightarrow> Supervisor \<Rightarrow> StartProcessArgs \<Rightarrow> Supervisor \<times> ProcessInfo list \<times> error option" where
  "StartProcessGroup rt s args =
     (case ForEachProcess (procMgr s)
             (\<lambda>proc AllProcessInfo.
                if GetGroup proc = arg_Name args
                then (let proc' = Start rt proc (arg_Wait args)
                      in (proc', AllProcessInfo @ [getProcessInfo (Now rt (length AllProcessInfo)) proc']))
                else (proc, AllProcessInfo))
             [] of
        (pm', AllProcessInfo) \<Rightarrow> (s\<lparr>procMgr := pm'\<rparr>, AllProcessInfo, None))"

definition StopProcess ::
  "Runtime \<Rightarrow> Supervisor \<Rightarrow> StartProcessArgs \<Rightarrow> Supervisor \<times> bool \<times> error option" where
  "StopProcess rt s args =
     (case Find (procMgr s) (arg_Name args) of
        None \<Rightarrow> (s, False, Some (Errorf (''fail to find process '' @ arg_Name args)))
      | Some proc \<Rightarrow>
          (s\<lparr>procMgr := setProcess (procMgr s) (arg_Name args) (Stop rt proc (arg_Wait args))\<rparr>,
           True, None))"

definition StopProcessGroup ::
  "Runtime \<Rightarrow> Supervisor \<Rightarrow> StartProcessArgs \<Rightarrow> Supervisor \<times> ProcessInfo list \<times> error option" where
  "StopProcessGroup rt s args =
     (case ForEachProcess (procMgr s)
             (\<lambda>proc AllProcessInfo.
                if GetGroup proc = arg_Name args
                then (let proc' = Stop rt proc (arg_Wait args)
                      in (proc', AllProcessInfo @ [getProcessInfo (Now rt (length AllProcessInfo)) proc']))
                else (proc, AllProcessInfo))
             [] of
        (pm', AllProcessInfo) \<Rightarrow> (s\<lparr>procMgr := pm'\<rparr>, AllProcessInfo, None))"

text \<open>
  \<open>sub\<close> with its two loops: the inner one sets \<open>exist\<close> when it meets \<open>s\<close> in
  \<open>arr_2\<close>, the outer one appends \<open>s\<close> to the result when \<open>exist\<close> stayed false.
\<close>

definition sub :: "string list \<Rightarrow> string list \<Rightarrow> string list" where
  "sub arr_1 arr_2 =
     fold (\<lambda>s result.
             let exist = fold (\<lambda>s2 exist. if s = s2 then True else exist) arr_2 False
             in if \<not> exist then result @ [s] else result)
          arr_1 []"

definition createPrograms :: "Library \<Rightarrow> Runtime \<Rightarrow> Supervisor \<Rightarrow> string list \<Rightarrow> Supervisor" where
  "createPrograms lib rt s prevPrograms =
     (let programs = GetProgramNames lib (config s);
          pm1 = fold (\<lambda>entry pm. CreateProcess rt (GetSupervisorId lib s) entry pm)
                     (Config_GetPrograms lib (config s)) (procMgr s);
          removedPrograms = sub prevPrograms programs;
          pm2 = fold (\<lambda>p pm. Remove rt p pm) removedPrograms pm1
      in s\<lparr>procMgr := pm2\<rparr>)"

subsection \<open>A concrete runtime for the examples\<close>

text \<open>
  The examples below run the operations on a small process set. Their runtime marks a
  started process RUNNING (code 20) and a stopped one STOPPED (code 0), creates a stopped
  process for a configuration entry whose program has none yet, removes by name and
  reads a fixed clock.
\<close>

definition exampleProcess :: "string \<Rightarrow> string \<Rightarrow> Process" where
  "exampleProcess name grp =
     \<lparr>GetName = name, GetGroup = grp, GetDescription = [], GetStartTime = 0,
      GetStopTime = 0, GetStateCode = 0, GetStateString = ''STOPPED'', GetExitstatus = 0,
      GetStdoutLogfile = [], GetStderrLogfile = [], GetPid = 0\<rparr>"

definition exampleRuntime :: Runtime where
  "exampleRuntime =
     \<lparr>Start = (\<lambda>proc wait. proc\<lparr>GetStateCode := 20, GetStateString := ''RUNNING''\<rparr>),
      Stop = (\<lambda>proc wait. proc\<lparr>GetStateCode := 0, GetStateString := ''STOPPED''\<rparr>),
      CreateProcess = (\<lambda>supervisor_id entry pm.
         case Find pm (GetProgramName entry) of
           Some proc \<Rightarrow> pm
         | None \<Rightarrow> pm @ [exampleProcess (GetProgramName entry) (Group entry)]),
      Remove = (\<lambda>name pm. filter (\<lambda>proc. GetName proc \<noteq> name) pm),
      Now = (\<lambda>k. 1500000000)\<rparr>"

definition exampleSupervisor :: Supervisor where
  "exampleSupervisor =
     \<lparr>config = exampleConfig,
      procMgr = [exampleProcess ''web'' ''front'', exampleProcess ''db'' ''back'',
                 exampleProcess ''cache'' ''front''],
      restarting = False\<rparr>"

text \<open>The same supervisor with every process started.\<close>

definition runningSupervisor :: Supervisor where
  "runningSupervisor =
     exampleSupervisor\<lparr>procMgr := map (\<lambda>proc. Start exampleRuntime proc True)
                                        (procMgr exampleSupervisor)\<rparr>"

section \<open>The RPC client's decoder of the reload reply\<close>

record ReloadConfigResult =
  AddedGroup :: "string list"
  ChangedGroup :: "string list"
  RemovedGroup :: "string list"

text \<open>
  Modelled from the spec: \<open>XMLProcessorManager\<close> (not among the sources), the
  "push-style parser that matches element tag-name chains against registered patterns
  and invokes leaf (text-content) or boundary callbacks". A reply body is the sequence
  of nodes the parser reports while it reads it: \<open>LeafNode path text\<close> for an element
  with text content, \<open>NonLeafNode path\<close> for an element without, each with the chain of
  tag names that leads to it. A processor is registered for one path and runs on every
  node reported with that path; other nodes are passed over. The processors are closures
  over the variables of \<open>ReloadConfig\<close>, so they transform a state \<open>'st\<close>.
\<close>

datatype xml_node = LeafNode string string | NonLeafNode string

record 'st XMLProcessorManager =
  leafProcessors :: "(string \<times> (string \<Rightarrow> 'st \<Rightarrow> 'st)) list"
  nonLeafProcessors :: "(string \<times> ('st \<Rightarrow> 'st)) list"

definition NewXMLProcessorManager :: "'st XMLProcessorManager" where
  "NewXMLProcessorManager = \<lparr>leafProcessors = [], nonLeafProcessors = []\<rparr>"

definition AddLeafProcessor ::
  "'st XMLProcessorManager \<Rightarrow> string \<Rightarrow> (string \<Rightarrow> 'st \<Rightarrow> 'st) \<Rightarrow> 'st XMLProcessorManager" where
  "AddLeafProcessor mgr path processor =
     mgr\<lparr>leafProcessors := AList.update path processor (leafProcessors mgr)\<rparr>"

definition AddNonLeafProcessor ::
  "'st XMLProcessorManager \<Rightarrow> string \<Rightarrow> ('st \<Rightarrow> 'st) \<Rightarrow> 'st XMLProcessorManager" where
  "AddNonLeafProcessor mgr path processor =
     mgr\<lparr>nonLeafProcessors := AList.update path processor (nonLeafProcessors mgr)\<rparr>"

definition ProcessNode :: "'st XMLProcessorManager \<Rightarrow> xml_node \<Rightarrow> 'st \<Rightarrow> 'st" where
  "ProcessNode mgr node st =
     (case node of
        LeafNode path val \<Rightarrow>
          (case map_of (leafProcessors mgr) path of
             Some processor \<Rightarrow> processor val st
           | None \<Rightarrow> st)
      | NonLeafNode path \<Rightarrow>
          (case map_of (nonLeafProcessors mgr) path of
             Some processor \<Rightarrow> processor st
           | None \<Rightarrow> st))"

definition ProcessXML :: "'st XMLProcessorManager \<Rightarrow> xml_node list \<Rightarrow> 'st \<Rightarrow> 'st" where
  "ProcessXML mgr body st = fold (ProcessNode mgr) body st"

text \<open>
  The variables that the two processors of \<open>ReloadConfig\<close> share: the reply, the
  counter \<open>i\<close> and the flag \<open>hasValue\<close>. The counter is a Go \<open>int\<close>; a reply body is
  far too short to make it overflow, so it is an integer here. The \<open>switch\<close> of the
  leaf processor has no default case.
\<close>

record decoder =
  var_reply :: ReloadConfigResult
  var_i :: int
  var_hasValue :: bool

definition nonLeafProcessor :: "decoder \<Rightarrow> decoder" where
  "nonLeafProcessor d =
     (if var_hasValue d then d\<lparr>var_hasValue := False\<rparr> else d\<lparr>var_i := var_i d + 1\<rparr>)"

definition leafProcessor :: "string \<Rightarrow> decoder \<Rightarrow> decoder" where
  "leafProcessor val d =
     (let d1 = d\<lparr>var_hasValue := True\<rparr>;
          d2 = d1\<lparr>var_i := var_i d1 + 1\<rparr>;
          reply = var_reply d2
      in if var_i d2 = 0
         then d2\<lparr>var_reply := reply\<lparr>AddedGroup := AddedGroup reply @ [val]\<rparr>\<rparr>
         else if var_i d2 = 1
         then d2\<lparr>var_reply := reply\<lparr>ChangedGroup := ChangedGroup reply @ [val]\<rparr>\<rparr>
         else if var_i d2 = 2
         then d2\<lparr>var_reply := reply\<lparr>RemovedGroup := RemovedGroup reply @ [val]\<rparr>\<rparr>
         else d2)"

text \<open>
  \<open>post\<close> either never calls the function it is given (the request could not be built
  or sent, or no response came), or calls it once with the body and the error of the
  response (a non-2xx status gives an empty body and an error).
\<close>

datatype post_result = NoCallback | Callback "xml_node list" "error option"

definition ReloadConfig :: "post_result \<Rightarrow> ReloadConfigResult \<times> error option" where
  "ReloadConfig posted =
     (let xmlProcMgr = NewXMLProcessorManager;
          d = \<lparr>var_reply = \<lparr>AddedGroup = [], ChangedGroup = [], RemovedGroup = []\<rparr>,
               var_i = - 1, var_hasValue = False\<rparr>;
          xmlProcMgr = AddNonLeafProcessor xmlProcMgr
                         ''methodResponse/params/param/value/array/data'' nonLeafProcessor;
          xmlProcMgr = AddLeafProcessor xmlProcMgr
                         ''methodResponse/params/param/value/array/data/value'' leafProcessor
      in case posted of
           NoCallback \<Rightarrow> (var_reply d, None)
         | Callback body procError \<Rightarrow>
             (case procError of
                Some err \<Rightarrow> (var_reply d, Some err)
              | None \<Rightarrow> (var_reply (ProcessXML xmlProcMgr body d), None)))"

text \<open>
  Modelled from the spec: two shapes of a reply body that carries the three lists.

  \<open>encodeReply\<close> is the flat shape, the one on which the two registered paths meet the
  names: every list is an array whose \<open>data\<close> element stands at the registered non-leaf
  path \<open>methodResponse/params/param/value/array/data\<close> and whose strings are the text of
  the \<open>value\<close> elements directly below it, at the registered leaf path. Reading one such
  array the parser reports a leaf for each string and then the end of the \<open>data\<close>
  element; the three arrays follow one another. There is no outer array around them.

  \<open>encodeNested\<close> is the shape the spec describes, "one array containing three arrays,
  in fixed order". Here the \<open>data\<close> element at the registered non-leaf path is that of
  the outer array, reported once, at its end; the \<open>value\<close> elements at the registered
  leaf path hold the inner arrays and have no text of their own, so they are reported
  without text; the names stand one array deeper, below
  \<open>methodResponse/params/param/value/array/data/value/array/data\<close>.
\<close>

definition encodeArray :: "string list \<Rightarrow> xml_node list" where
  "encodeArray arr =
     map (LeafNode ''methodResponse/params/param/value/array/data/value'') arr
     @ [NonLeafNode ''methodResponse/params/param/value/array/data'']"

definition encodeArrays :: "string list list \<Rightarrow> xml_node list" where
  "encodeArrays arrs = concat (map encodeArray arrs)"

definition encodeReply :: "ReloadConfigResult \<Rightarrow> xml_node list" where
  "encodeReply r = encodeArrays [AddedGroup r, ChangedGroup r, RemovedGroup r]"

definition encodeNestedArray :: "string list \<Rightarrow> xml_node list" where
  "encodeNestedArray arr =
     map (LeafNode ''methodResponse/params/param/value/array/data/value/array/data/value'') arr
     @ [NonLeafNode ''methodResponse/params/param/value/array/data/value/array/data'',
        NonLeafNode ''methodResponse/params/param/value/array/data/value'']"

definition encodeNested :: "ReloadConfigResult \<Rightarrow> xml_node list" where
  "encodeNested r =
     concat (map encodeNestedArray [AddedGroup r, ChangedGroup r, RemovedGroup r])
     @ [NonLeafNode ''methodResponse/params/param/value/array/data'']"

text \<open>
  What holds of the shared variables between any two calls of the processors: a list of
  the reply is empty as long as the counter is below the list's position, and never has
  more than one element.
\<close>

definition decoder_inv :: "decoder \<Rightarrow> bool" where
  "decoder_inv d =
     ((if var_i d < 0 then AddedGroup (var_reply d) = []
       else length (AddedGroup (var_reply d)) \<le> 1)
      \<and> (if var_i d < 1 then ChangedGroup (var_reply d) = []
         else length (ChangedGroup (var_reply d)) \<le> 1)
      \<and> (if var_i d < 2 then RemovedGroup (var_reply d) = []
         else length (RemovedGroup (var_reply d)) \<le> 1))"

section \<open>Daemon state and the group stubs\<close>

text \<open>
  C9. Whatever the supervisor's state, and in particular whether or not a restart has
  been requested, \<open>GetState\<close> replies with state code 1 and state name RUNNING, returns
  no error and leaves the supervisor as it was; the codes 0 (RESTARTING) and 2 (FATAL)
  listed in the method's comment are never produced.
\<close>

theorem GetState_always_running:
  "GetState s = (s, \<lparr>Statecode = 1, Statename = ''RUNNING''\<rparr>, None)
   \<and> Statecode (fst (snd (GetState s))) \<noteq> 0
   \<and> Statecode (fst (snd (GetState s))) \<noteq> 2
   \<and> fst (snd (GetState (fst (Restart s)))) = \<lparr>Statecode = 1, Statename = ''RUNNING''\<rparr>"
  by (simp add: GetState_def Restart_def)

theorem GetState_always_running_witness:
  "IsRestarting (fst (Restart \<lparr>config = NewConfig ''supervisord.conf'', procMgr = [], restarting = False\<rparr>))
   \<and> fst (snd (GetState (fst (Restart \<lparr>config = NewConfig ''supervisord.conf'', procMgr = [], restarting = False\<rparr>))))
       = \<lparr>Statecode = 1, Statename = ''RUNNING''\<rparr>"
  using GetState_always_running
    [of "\<lparr>config = NewConfig ''supervisord.conf'', procMgr = [], restarting = False\<rparr>"]
  by (simp add: Restart_def IsRestarting_def)

text \<open>
  C10. For every argument and every supervisor state, \<open>AddProcessGroup\<close> and
  \<open>RemoveProcessGroup\<close> reply \<open>Success = false\<close>, return no error and leave the whole
  supervisor state (configuration entries, group index, process set, restart flag)
  unchanged.
\<close>

theorem AddRemoveProcessGroup_noop:
  "AddProcessGroup s name = (s, False, None) \<and> RemoveProcessGroup s name = (s, False, None)"
  by (simp add: AddProcessGroup_def RemoveProcessGroup_def)

section \<open>Single-target and group-target lifecycle operations\<close>

lemma Find_None_iff: "(Find pm name = None) = (\<forall>proc \<in> set pm. GetName proc \<noteq> name)"
  by (auto simp: Find_def find_None_iff)

lemma ForEachProcess_group:
  "ForEachProcess pm
     (\<lambda>proc acc. if GetGroup proc = g
                  then (let proc' = f proc in (proc', acc @ [getProcessInfo (now (length acc)) proc']))
                  else (proc, acc)) ini
   = (map (\<lambda>proc. if GetGroup proc = g then f proc else proc) pm,
      ini @ map (\<lambda>(k, proc). getProcessInfo (now k) (f proc))
                 (enumerate (length ini) (filter (\<lambda>proc. GetGroup proc = g) pm)))"
  by (induction pm arbitrary: ini) (auto simp: Let_def)

lemma StartProcessGroup_eq:
  "StartProcessGroup rt s args
     = (s\<lparr>procMgr := map (\<lambda>proc. if GetGroup proc = arg_Name args
                                    then Start rt proc (arg_Wait args) else proc) (procMgr s)\<rparr>,
        map (\<lambda>(k, proc). getProcessInfo (Now rt k) (Start rt proc (arg_Wait args)))
            (enumerate 0 (filter (\<lambda>proc. GetGroup proc = arg_Name args) (procMgr s))),
        None)"
  using ForEachProcess_group
    [of "procMgr s" "arg_Name args" "\<lambda>p. Start rt p (arg_Wait args)" "Now rt" "[]"]
  by (simp add: StartProcessGroup_def)

lemma StopProcessGroup_eq:
  "StopProcessGroup rt s args
     = (s\<lparr>procMgr := map (\<lambda>proc. if GetGroup proc = arg_Name args
                                    then Stop rt proc (arg_Wait args) else proc) (procMgr s)\<rparr>,
        map (\<lambda>(k, proc). getProcessInfo (Now rt k) (Stop rt proc (arg_Wait args)))
            (enumerate 0 (filter (\<lambda>proc. GetGroup proc = arg_Name args) (procMgr s))),
        None)"
  using ForEachProcess_group
    [of "procMgr s" "arg_Name args" "\<lambda>p. Stop rt p (arg_Wait args)" "Now rt" "[]"]
  by (simp add: StopProcessGroup_def)

lemma no_member_map:
  "\<forall>proc \<in> set pm. GetGroup proc \<noteq> g \<Longrightarrow>
     map (\<lambda>proc. if GetGroup proc = g then f proc else proc) pm = pm"
  by (induction pm) auto

lemma no_member_filter:
  "\<forall>proc \<in> set pm. GetGroup proc \<noteq> g \<Longrightarrow> filter (\<lambda>proc. GetGroup proc = g) pm = []"
  by (induction pm) auto

text \<open>
  C7. The group-scoped start and stop operations never return an error. Each applies
  the operation to exactly the processes whose group equals the given name, leaves the
  others as they are, and replies with the descriptors of the matched processes, taken
  after the operation, in the order the process set is visited (the \<open>k\<close>-th descriptor
  carries the \<open>k\<close>-th clock reading). When no process has that group the reply is the
  empty list and the supervisor is unchanged.
\<close>

theorem group_start_stop:
  "StartProcessGroup rt s args
     = (s\<lparr>procMgr := map (\<lambda>proc. if GetGroup proc = arg_Name args
                                    then Start rt proc (arg_Wait args) else proc) (procMgr s)\<rparr>,
        map (\<lambda>(k, proc). getProcessInfo (Now rt k) (Start rt proc (arg_Wait args)))
            (enumerate 0 (filter (\<lambda>proc. GetGroup proc = arg_Name args) (procMgr s))),
        None)
   \<and> StopProcessGroup rt s args
     = (s\<lparr>procMgr := map (\<lambda>proc. if GetGroup proc = arg_Name args
                                    then Stop rt proc (arg_Wait args) else proc) (procMgr s)\<rparr>,
        map (\<lambda>(k, proc). getProcessInfo (Now rt k) (Stop rt proc (arg_Wait args)))
            (enumerate 0 (filter (\<lambda>proc. GetGroup proc = arg_Name args) (procMgr s))),
        None)
   \<and> ((\<forall>proc \<in> set (procMgr s). GetGroup proc \<noteq> arg_Name args) \<longrightarrow>
        StartProcessGroup rt s args = (s, [], None)
        \<and> StopProcessGroup rt s args = (s, [], None))"
  by (simp add: StartProcessGroup_eq StopProcessGroup_eq no_member_map no_member_filter)

theorem group_start_stop_witness:
  "StartProcessGroup exampleRuntime exampleSupervisor \<lparr>arg_Name = ''nobody'', arg_Wait = True\<rparr>
     = (exampleSupervisor, [], None)
   \<and> StopProcessGroup exampleRuntime exampleSupervisor \<lparr>arg_Name = ''nobody'', arg_Wait = True\<rparr>
     = (exampleSupervisor, [], None)
   \<and> map info_Name (fst (snd (StartProcessGroup exampleRuntime exampleSupervisor
                                 \<lparr>arg_Name = ''front'', arg_Wait = True\<rparr>)))
     = [''web'', ''cache'']
   \<and> map info_Statename (fst (snd (StartProcessGroup exampleRuntime exampleSupervisor
                                 \<lparr>arg_Name = ''front'', arg_Wait = True\<rparr>)))
     = [''RUNNING'', ''RUNNING'']"
  using group_start_stop
      [of exampleRuntime exampleSupervisor "\<lparr>arg_Name = ''nobody'', arg_Wait = True\<rparr>"]
    group_start_stop
      [of exampleRuntime exampleSupervisor "\<lparr>arg_Name = ''front'', arg_Wait = True\<rparr>"]
  by (simp add: exampleSupervisor_def exampleRuntime_def exampleProcess_def
      getProcessInfo_def enumerate_eq_zip)

lemma Find_first:
  "\<forall>p \<in> set pre. GetName p \<noteq> name \<Longrightarrow> GetName proc = name \<Longrightarrow>
   Find (pre @ proc # post) name = Some proc"
  by (induction pre) (auto simp: Find_def)

lemma setProcess_first:
  "\<forall>p \<in> set pre. GetName p \<noteq> name \<Longrightarrow> GetName proc = name \<Longrightarrow>
   setProcess (pre @ proc # post) name proc' = pre @ proc' # post"
  by (induction pre) auto

text \<open>
  C8. When no process has the given name, \<open>StopProcess\<close> returns the error
  "fail to find process <name>" (the spec's NotFound), replies \<open>Success = false\<close> and
  leaves the supervisor, and with it the process set, unchanged. When a process of that
  name exists, it returns no error and replies \<open>Success = true\<close>; and then the
  supervisor it leaves is the given one with the first process of that name replaced by
  what \<open>Stop\<close> makes of it (called with the \<open>wait\<close> argument of the request), every
  other process standing where and as it was.
\<close>

theorem StopProcess_not_found:
  "((\<forall>proc \<in> set (procMgr s). GetName proc \<noteq> name) \<longrightarrow>
       StopProcess rt s \<lparr>arg_Name = name, arg_Wait = wait\<rparr>
         = (s, False, Some (Errorf (''fail to find process '' @ name))))
   \<and> ((\<exists>proc \<in> set (procMgr s). GetName proc = name) \<longrightarrow>
       fst (snd (StopProcess rt s \<lparr>arg_Name = name, arg_Wait = wait\<rparr>)) = True
       \<and> snd (snd (StopProcess rt s \<lparr>arg_Name = name, arg_Wait = wait\<rparr>)) = None)
   \<and> (procMgr s = pre @ proc # post \<and> (\<forall>p \<in> set pre. GetName p \<noteq> name) \<and> GetName proc = name \<longrightarrow>
       StopProcess rt s \<lparr>arg_Name = name, arg_Wait = wait\<rparr>
         = (s\<lparr>procMgr := pre @ Stop rt proc wait # post\<rparr>, True, None))"
proof -
  have a: "(\<forall>proc \<in> set (procMgr s). GetName proc \<noteq> name) \<longrightarrow>
       StopProcess rt s \<lparr>arg_Name = name, arg_Wait = wait\<rparr>
         = (s, False, Some (Errorf (''fail to find process '' @ name)))"
    using Find_None_iff[of "procMgr s" name] by (auto simp: StopProcess_def split: option.splits)
  have b: "(\<exists>proc \<in> set (procMgr s). GetName proc = name) \<longrightarrow>
       fst (snd (StopProcess rt s \<lparr>arg_Name = name, arg_Wait = wait\<rparr>)) = True
       \<and> snd (snd (StopProcess rt s \<lparr>arg_Name = name, arg_Wait = wait\<rparr>)) = None"
    using Find_None_iff[of "procMgr s" name] by (auto simp: StopProcess_def split: option.splits)
  have c: "procMgr s = pre @ proc # post \<and> (\<forall>p \<in> set pre. GetName p \<noteq> name) \<and> GetName proc = name \<longrightarrow>
       StopProcess rt s \<lparr>arg_Name = name, arg_Wait = wait\<rparr>
         = (s\<lparr>procMgr := pre @ Stop rt proc wait # post\<rparr>, True, None)"
    by (simp add: StopProcess_def Find_first setProcess_first)
  from a b c show ?thesis by (intro conjI)
qed

theorem StopProcess_not_found_witness:
  "StopProcess exampleRuntime exampleSupervisor \<lparr>arg_Name = ''mail'', arg_Wait = True\<rparr>
     = (exampleSupervisor, False, Some (Errorf ''fail to find process mail''))
   \<and> fst (snd (StopProcess exampleRuntime exampleSupervisor \<lparr>arg_Name = ''db'', arg_Wait = True\<rparr>))
     = True
   \<and> snd (snd (StopProcess exampleRuntime exampleSupervisor \<lparr>arg_Name = ''db'', arg_Wait = True\<rparr>))
     = None
   \<and> map GetName (procMgr runningSupervisor) = [''web'', ''db'', ''cache'']
   \<and> map GetStateString (procMgr runningSupervisor) = [''RUNNING'', ''RUNNING'', ''RUNNING'']
   \<and> StopProcess exampleRuntime runningSupervisor \<lparr>arg_Name = ''db'', arg_Wait = True\<rparr>
     = (runningSupervisor\<lparr>procMgr :=
          [Start exampleRuntime (exampleProcess ''web'' ''front'') True,
           exampleProcess ''db'' ''back'',
           Start exampleRuntime (exampleProcess ''cache'' ''front'') True]\<rparr>, True, None)"
  using StopProcess_not_found [of exampleSupervisor "''mail''" exampleRuntime True]
    StopProcess_not_found [of exampleSupervisor "''db''" exampleRuntime True]
    StopProcess_not_found [of runningSupervisor "''db''" exampleRuntime True
      "[Start exampleRuntime (exampleProcess ''web'' ''front'') True]"
      "Start exampleRuntime (exampleProcess ''db'' ''back'') True"
      "[Start exampleRuntime (exampleProcess ''cache'' ''front'') True]"]
  by (simp add: runningSupervisor_def exampleSupervisor_def exampleProcess_def exampleRuntime_def)

section \<open>Reconciliation after a reload\<close>

lemma sub_inner:
  "fold (\<lambda>s2 exist. if s = s2 then True else exist) arr_2 b = (b \<or> s \<in> set arr_2)"
  by (induction arr_2 arbitrary: b) auto

lemma sub_outer:
  "fold (\<lambda>s result. if s \<notin> set arr_2 then result @ [s] else result) arr_1 acc
     = acc @ filter (\<lambda>s. s \<notin> set arr_2) arr_1"
  by (induction arr_1 arbitrary: acc) auto

lemma sub_filter: "sub arr_1 arr_2 = filter (\<lambda>s. s \<notin> set arr_2) arr_1"
  by (simp add: sub_def sub_inner sub_outer)

lemma set_Config_GetPrograms:
  assumes "\<And>xs. set (sortProgram lib xs) = set xs"
  shows "set (Config_GetPrograms lib c) = set (GetEntries c IsProgram)"
  using assms by (auto simp: Config_GetPrograms_def)

lemma set_GetProgramNames:
  assumes "\<And>xs. set (sortProgram lib xs) = set xs"
  shows "set (GetProgramNames lib c) = set (map GetProgramName (GetEntries c IsProgram))"
  using assms by (auto simp: GetProgramNames_def Config_GetPrograms_def)

text \<open>
  C1. Let \<open>sortProgram\<close> return the entries it is given, in whatever order. Then for
  every list \<open>P\<close> of previous program names and every supervisor \<open>s\<close>:
  the names \<open>createPrograms\<close> removes are the names of \<open>P\<close> that are not the name of a
  program entry of the store, in the order of \<open>P\<close>; the entries it creates or updates
  are all the program entries of the store, whether or not their names are in \<open>P\<close>; and
  the process manager it leaves is the one obtained by first creating a process for
  each of these entries and then removing each of those names.
\<close>

theorem createPrograms_reconciles:
  assumes "\<And>xs. set (sortProgram lib xs) = set xs"
  shows "sub P (GetProgramNames lib (config s))
           = filter (\<lambda>p. p \<notin> set (map GetProgramName (GetEntries (config s) IsProgram))) P
         \<and> set (Config_GetPrograms lib (config s)) = set (GetEntries (config s) IsProgram)
         \<and> procMgr (createPrograms lib rt s P)
           = fold (Remove rt)
               (filter (\<lambda>p. p \<notin> set (map GetProgramName (GetEntries (config s) IsProgram))) P)
               (fold (CreateProcess rt (GetSupervisorId lib s)) (Config_GetPrograms lib (config s))
                  (procMgr s))"
  using set_GetProgramNames[OF assms] set_Config_GetPrograms[OF assms]
  by (simp add: createPrograms_def sub_filter Let_def)

theorem createPrograms_reconciles_witness:
  "(\<forall>xs. set (sortProgram exampleLibrary xs) = set xs)
   \<and> sub [''cache'', ''web'', ''mail'', ''db''] (GetProgramNames exampleLibrary (config exampleSupervisor))
     = [''cache'', ''mail'']
   \<and> map GetProgramName (Config_GetPrograms exampleLibrary (config exampleSupervisor)) = [''web'', ''db'']
   \<and> map GetName (procMgr (createPrograms exampleLibrary exampleRuntime exampleSupervisor
                              [''cache'', ''web'', ''mail'', ''db'']))
     = [''web'', ''db'']"
proof -
  have hyp: "set (sortProgram exampleLibrary xs) = set xs" for xs
    by (simp add: exampleLibrary_def)
  have names:
    "map GetProgramName (Config_GetPrograms exampleLibrary (config exampleSupervisor)) = [''web'', ''db'']"
    by (simp add: exampleLibrary_def exampleSupervisor_def exampleConfig_def exampleEntry_def
        Config_GetPrograms_def GetEntries_def IsProgram_def GetProgramName_def HasPrefix_def)
  show ?thesis
    using createPrograms_reconciles
      [of exampleLibrary "[''cache'', ''web'', ''mail'', ''db'']" exampleSupervisor exampleRuntime, OF hyp]
      hyp names
    apply (simp add: exampleSupervisor_def exampleConfig_def exampleEntry_def
        GetEntries_def IsProgram_def GetProgramName_def HasPrefix_def)
    apply (simp add: exampleLibrary_def Config_GetPrograms_def GetEntries_def IsProgram_def HasPrefix_def
       exampleRuntime_def exampleProcess_def Find_def GetProgramName_def)
    done
qed

section \<open>Parsing a section into an entry\<close>






section \<open>The diff of two group snapshots\<close>

lemma set_GetAllGroup: "set (GetAllGroup pg) = snd ` set pg"
  by (simp add: GetAllGroup_def)

lemma GetAllProcess_empty: "(GetAllProcess pg grp = []) = (grp \<notin> snd ` set pg)"
  by (induction pg) (auto simp: GetAllProcess_def)

lemma fold_append_filter:
  "fold (\<lambda>x acc. if P x then acc @ [x] else acc) xs acc = acc @ filter P xs"
  by (induction xs arbitrary: acc) auto

lemma ProcessGroup_Sub_eq:
  "ProcessGroup_Sub pg other =
     (filter (\<lambda>g. g \<notin> set (GetAllGroup other)) (GetAllGroup pg),
      filter (\<lambda>g. g \<in> set (GetAllGroup other)
                  \<and> set (GetAllProcess pg g) \<noteq> set (GetAllProcess other g)) (GetAllGroup pg),
      filter (\<lambda>g. g \<notin> set (GetAllGroup pg)) (GetAllGroup other))"
  by (simp add: ProcessGroup_Sub_def util_Sub_def IsSameStringArray_def Let_def
      fold_append_filter[where acc="[]", simplified] GetAllProcess_empty set_GetAllGroup)

text \<open>
  C2, as the spec states it, fails: a group that is in both snapshots with different
  members is changed, so it is neither added nor removed nor unchanged, and the union
  of these three misses it.
\<close>

theorem diff_union_counterexample:
  "set (fst (ProcessGroup_Sub [(''web'', ''front'')] [(''api'', ''front'')]))
     \<union> set (snd (snd (ProcessGroup_Sub [(''web'', ''front'')] [(''api'', ''front'')])))
     \<union> set (spec_unchanged [(''web'', ''front'')] [(''api'', ''front'')])
   \<noteq> set (GetAllGroup [(''web'', ''front'')]) \<union> set (GetAllGroup [(''api'', ''front'')])"
  by (simp add: ProcessGroup_Sub_eq spec_unchanged_def GetAllGroup_def GetAllProcess_def)

text \<open>
  C2, amended. For every pair of snapshots (new, old), of the three lists
  \<open>new.Sub(old)\<close> returns, added holds exactly the groups of the new snapshot that the
  old one does not have, removed exactly the groups of the old snapshot that the new one
  does not have, and changed exactly the groups of both whose sets of programs differ;
  the three are pairwise disjoint; and added, changed, removed and the unchanged groups
  together are exactly the groups of the two snapshots.
\<close>

theorem diff_partition:
  "set (fst (ProcessGroup_Sub new old)) = set (GetAllGroup new) - set (GetAllGroup old)
   \<and> set (snd (snd (ProcessGroup_Sub new old))) = set (GetAllGroup old) - set (GetAllGroup new)
   \<and> set (fst (snd (ProcessGroup_Sub new old)))
       = {g \<in> set (GetAllGroup new) \<inter> set (GetAllGroup old).
            set (GetAllProcess new g) \<noteq> set (GetAllProcess old g)}
   \<and> set (fst (ProcessGroup_Sub new old)) \<inter> set (fst (snd (ProcessGroup_Sub new old))) = {}
   \<and> set (fst (ProcessGroup_Sub new old)) \<inter> set (snd (snd (ProcessGroup_Sub new old))) = {}
   \<and> set (fst (snd (ProcessGroup_Sub new old))) \<inter> set (snd (snd (ProcessGroup_Sub new old))) = {}
   \<and> set (fst (ProcessGroup_Sub new old)) \<union> set (fst (snd (ProcessGroup_Sub new old)))
       \<union> set (snd (snd (ProcessGroup_Sub new old))) \<union> set (spec_unchanged new old)
       = set (GetAllGroup new) \<union> set (GetAllGroup old)"
  unfolding ProcessGroup_Sub_eq spec_unchanged_def by auto

theorem diff_partition_witness:
  "ProcessGroup_Sub [(''web'', ''front''), (''db'', ''back''), (''mq'', ''bus'')]
                    [(''api'', ''front''), (''db'', ''back''), (''cron'', ''jobs'')]
     = ([''bus''], [''front''], [''jobs''])
   \<and> spec_unchanged [(''web'', ''front''), (''db'', ''back''), (''mq'', ''bus'')]
                     [(''api'', ''front''), (''db'', ''back''), (''cron'', ''jobs'')]
     = [''back'']
   \<and> set (fst (ProcessGroup_Sub [(''web'', ''front''), (''db'', ''back''), (''mq'', ''bus'')]
                    [(''api'', ''front''), (''db'', ''back''), (''cron'', ''jobs'')]))
     \<inter> set (fst (snd (ProcessGroup_Sub [(''web'', ''front''), (''db'', ''back''), (''mq'', ''bus'')]
                    [(''api'', ''front''), (''db'', ''back''), (''cron'', ''jobs'')]))) = {}"
proof -
  have sub: "ProcessGroup_Sub [(''web'', ''front''), (''db'', ''back''), (''mq'', ''bus'')]
                    [(''api'', ''front''), (''db'', ''back''), (''cron'', ''jobs'')]
     = ([''bus''], [''front''], [''jobs''])"
    by (simp add: ProcessGroup_Sub_eq GetAllGroup_def GetAllProcess_def)
  have unch: "spec_unchanged [(''web'', ''front''), (''db'', ''back''), (''mq'', ''bus'')]
                     [(''api'', ''front''), (''db'', ''back''), (''cron'', ''jobs'')]
     = [''back'']"
    by (simp add: spec_unchanged_def GetAllGroup_def GetAllProcess_def)
  from diff_partition [of "[(''web'', ''front''), (''db'', ''back''), (''mq'', ''bus'')]"
        "[(''api'', ''front''), (''db'', ''back''), (''cron'', ''jobs'')]"]
  have "set (fst (ProcessGroup_Sub [(''web'', ''front''), (''db'', ''back''), (''mq'', ''bus'')]
                    [(''api'', ''front''), (''db'', ''back''), (''cron'', ''jobs'')]))
     \<inter> set (fst (snd (ProcessGroup_Sub [(''web'', ''front''), (''db'', ''back''), (''mq'', ''bus'')]
                    [(''api'', ''front''), (''db'', ''back''), (''cron'', ''jobs'')]))) = {}"
    by (elim conjE)
  with sub unch show ?thesis by (intro conjI)
qed

section \<open>Decoding the reload reply\<close>

lemmas decoder_defs = ReloadConfig_def ProcessXML_def ProcessNode_def AddLeafProcessor_def
  AddNonLeafProcessor_def NewXMLProcessorManager_def leafProcessor_def nonLeafProcessor_def
  encodeReply_def encodeArrays_def encodeArray_def Let_def

lemma decoder_inv_leaf: "decoder_inv d \<Longrightarrow> decoder_inv (leafProcessor v d)"
  by (auto simp: decoder_inv_def leafProcessor_def Let_def split: if_splits)

lemma decoder_inv_nonLeaf: "decoder_inv d \<Longrightarrow> decoder_inv (nonLeafProcessor d)"
  by (auto simp: decoder_inv_def nonLeafProcessor_def split: if_splits)

lemma decoder_inv_node:
  "decoder_inv d \<Longrightarrow>
   decoder_inv (ProcessNode
     (AddLeafProcessor (AddNonLeafProcessor NewXMLProcessorManager p1 nonLeafProcessor)
        p2 leafProcessor)
     node d)"
  by (cases node)
     (auto simp: ProcessNode_def AddLeafProcessor_def AddNonLeafProcessor_def
        NewXMLProcessorManager_def decoder_inv_leaf decoder_inv_nonLeaf)

lemma decoder_inv_fold:
  "decoder_inv d \<Longrightarrow>
   decoder_inv (fold (ProcessNode
     (AddLeafProcessor (AddNonLeafProcessor NewXMLProcessorManager p1 nonLeafProcessor)
        p2 leafProcessor))
     body d)"
  by (induction body arbitrary: d) (auto simp: decoder_inv_node)

lemma decoder_inv_lengths:
  "decoder_inv d \<Longrightarrow>
     length (AddedGroup (var_reply d)) \<le> 1 \<and> length (ChangedGroup (var_reply d)) \<le> 1
     \<and> length (RemovedGroup (var_reply d)) \<le> 1"
  by (auto simp: decoder_inv_def split: if_splits)

text \<open>
  Whatever nodes the parser reports, and in whatever order, every call of the leaf
  processor advances the counter, so no list of the reply ever gets a second element.
\<close>

lemma ReloadConfig_at_most_one_each:
  "length (AddedGroup (fst (ReloadConfig posted))) \<le> 1
   \<and> length (ChangedGroup (fst (ReloadConfig posted))) \<le> 1
   \<and> length (RemovedGroup (fst (ReloadConfig posted))) \<le> 1"
proof (cases posted)
  case NoCallback
  then show ?thesis by (simp add: ReloadConfig_def Let_def)
next
  case (Callback body procError)
  show ?thesis
  proof (cases procError)
    case None
    have "decoder_inv \<lparr>var_reply = \<lparr>AddedGroup = [], ChangedGroup = [], RemovedGroup = []\<rparr>,
               var_i = - 1, var_hasValue = False\<rparr>"
      by (simp add: decoder_inv_def)
    from decoder_inv_lengths[OF decoder_inv_fold[OF this]] show ?thesis
      using Callback None by (simp add: ReloadConfig_def Let_def ProcessXML_def)
  next
    case (Some err)
    with Callback show ?thesis by (simp add: ReloadConfig_def Let_def)
  qed
qed

text \<open>
  From a body of the flat shape the decoder does give back a triple whose lists have at
  most one name each.
\<close>

lemma ReloadConfig_roundtrip_short:
  "length a \<le> 1 \<Longrightarrow> length c \<le> 1 \<Longrightarrow> length r \<le> 1 \<Longrightarrow>
   ReloadConfig (Callback (encodeReply \<lparr>AddedGroup = a, ChangedGroup = c, RemovedGroup = r\<rparr>) None)
     = (\<lparr>AddedGroup = a, ChangedGroup = c, RemovedGroup = r\<rparr>, None)"
  by (cases a; cases c; cases r) (simp_all add: decoder_defs)

text \<open>
  A body of the nested shape passes the decoder by: no string stands at the registered
  leaf path, so the three lists come back empty whatever the triple was.
\<close>

lemma fold_other_leaves:
  "p \<noteq> ''methodResponse/params/param/value/array/data/value'' \<Longrightarrow>
   fold (ProcessNode
     (AddLeafProcessor (AddNonLeafProcessor NewXMLProcessorManager p1 nonLeafProcessor)
        ''methodResponse/params/param/value/array/data/value'' leafProcessor))
     (map (LeafNode p) arr) d = d"
  by (induction arr)
     (simp_all add: ProcessNode_def AddLeafProcessor_def AddNonLeafProcessor_def
        NewXMLProcessorManager_def)

lemma ReloadConfig_nested_empty:
  "ReloadConfig (Callback (encodeNested r) None)
     = (\<lparr>AddedGroup = [], ChangedGroup = [], RemovedGroup = []\<rparr>, None)"
  by (simp add: ReloadConfig_def ProcessXML_def encodeNested_def encodeNestedArray_def Let_def
      fold_other_leaves)
     (simp add: ProcessNode_def AddLeafProcessor_def AddNonLeafProcessor_def
        NewXMLProcessorManager_def nonLeafProcessor_def)

text \<open>
  C4 does not hold of the code. Take the spec's own example, added = [g1], changed = [],
  removed = [g2, g3], in the flat shape, where the three arrays of strings stand at the
  registered paths: the decoder returns removed = [g2], since the leaf g3 moves the
  counter to 3 and is dropped. In general the decoded lists are one name long at most,
  for every reply body, of whatever shape.
\<close>

theorem ReloadConfig_loses_second_name:
  "ReloadConfig (Callback (encodeReply \<lparr>AddedGroup = [''g1''], ChangedGroup = [],
                                         RemovedGroup = [''g2'', ''g3'']\<rparr>) None)
     = (\<lparr>AddedGroup = [''g1''], ChangedGroup = [], RemovedGroup = [''g2'']\<rparr>, None)
   \<and> (\<forall>body. length (RemovedGroup (fst (ReloadConfig (Callback body None)))) \<le> 1)"
proof -
  have "ReloadConfig (Callback (encodeReply \<lparr>AddedGroup = [''g1''], ChangedGroup = [],
                                         RemovedGroup = [''g2'', ''g3'']\<rparr>) None)
     = (\<lparr>AddedGroup = [''g1''], ChangedGroup = [], RemovedGroup = [''g2'']\<rparr>, None)"
    by (simp add: decoder_defs)
  then show ?thesis using ReloadConfig_at_most_one_each by blast
qed

text \<open>
  C5, as the spec states it, fails: a body of four inner arrays, and a body with a
  string leaf above the inner arrays, are both decoded to a triple with a nil error.
\<close>

theorem ReloadConfig_malformed_counterexample:
  "3 < length [[''a''], [''b''], [''c''], [''d'']]
   \<and> ReloadConfig (Callback (encodeArrays [[''a''], [''b''], [''c''], [''d'']]) None)
     = (\<lparr>AddedGroup = [''a''], ChangedGroup = [''b''], RemovedGroup = [''c'']\<rparr>, None)
   \<and> ReloadConfig (Callback (LeafNode ''methodResponse/params/param/value'' ''stray''
                   # encodeReply \<lparr>AddedGroup = [''g1''], ChangedGroup = [],
                                  RemovedGroup = [''g2'']\<rparr>) None)
     = (\<lparr>AddedGroup = [''g1''], ChangedGroup = [], RemovedGroup = [''g2'']\<rparr>, None)"
  by (simp add: decoder_defs)

text \<open>
  C5, amended. The decoder has no failure of its own. For every reply body that the
  transport delivers without an error it returns a triple and a nil error, however many
  inner arrays the body has; a leaf that does not stand at the registered path (a leaf
  outside the inner arrays) is passed over. The only error it returns is the transport's,
  with three empty lists; when the transport never delivers a response it returns three
  empty lists and a nil error.
\<close>

theorem ReloadConfig_no_malformed_error:
  "snd (ReloadConfig (Callback body None)) = None
   \<and> ReloadConfig (Callback body (Some err))
       = (\<lparr>AddedGroup = [], ChangedGroup = [], RemovedGroup = []\<rparr>, Some err)
   \<and> ReloadConfig NoCallback = (\<lparr>AddedGroup = [], ChangedGroup = [], RemovedGroup = []\<rparr>, None)
   \<and> (p \<noteq> ''methodResponse/params/param/value/array/data/value'' \<longrightarrow>
        ReloadConfig (Callback (xs @ LeafNode p v # ys) None) = ReloadConfig (Callback (xs @ ys) None))"
  by (simp add: ReloadConfig_def ProcessXML_def ProcessNode_def AddLeafProcessor_def
        AddNonLeafProcessor_def NewXMLProcessorManager_def Let_def)

theorem ReloadConfig_no_malformed_error_witness:
  "snd (ReloadConfig (Callback (encodeArrays [[''a''], [''b''], [''c''], [''d'']]) None)) = None
   \<and> ''methodResponse/params/param/value'' \<noteq> ''methodResponse/params/param/value/array/data/value''
   \<and> ReloadConfig (Callback ([] @ LeafNode ''methodResponse/params/param/value'' ''stray''
                                 # encodeArrays [[''a'']]) None)
     = ReloadConfig (Callback ([] @ encodeArrays [[''a'']]) None)"
  using ReloadConfig_no_malformed_error
    [of "encodeArrays [[''a''], [''b''], [''c''], [''d'']]"
        "Errorf ''Bad response with status code 500''" "''methodResponse/params/param/value''"
        "[]" "''stray''" "encodeArrays [[''a'']]"]
  by simp

section \<open>Expanding a program section into its instances\<close>







lemma map_of_KeyAdded:
  "map_of (sec_Keys (KeyAdded sec k)) = (map_of (sec_Keys sec))(k \<mapsto> Key sec k)"
  by (auto simp: KeyAdded_def Key_def update_conv' fun_eq_iff split: option.splits)



lemma GetKey_KeyAdded: "k' \<noteq> k \<Longrightarrow> GetKey (KeyAdded sec k) k' = GetKey sec k'"
  by (simp add: GetKey_def map_of_KeyAdded)









text \<open>
  When \<open>numprocs\<close> is above one and the section has no \<open>process_name\<close> key, the
  loader stops with a nil pointer dereference.
\<close>

lemma parseProgramSection_panics:
  "isProgramOrEventListener section = (True, pre) \<Longrightarrow>
   KeyInt lib (Key section ''numprocs'') = Some N \<Longrightarrow> 1 < N \<Longrightarrow>
   GetKey section ''process_name'' = None \<Longrightarrow>
   parseProgramSection lib section c = Inl NilPointerDereference"
  by (simp add: parseProgramSection_def Let_def GetKey_KeyAdded)




section \<open>Reuse of configuration entries across reloads\<close>







end
